theory Spec2Isabelle
  imports Main
begin

section \<open>Python values, exceptions and the session object\<close>

text \<open>
  The module \<^verbatim>\<open>packages/sshnpdpy/lib/sshrv.py\<close> defines one class, \<^verbatim>\<open>SSHRV\<close>, with a
  constructor and the method \<^verbatim>\<open>run\<close>. The constructor arguments are dynamically typed,
  so they are values of \<open>pyval\<close>.
\<close>

datatype pyval = PNone | PBool bool | PInt int | PStr string

text \<open>
  A raised exception carries the name of its class. The handler of \<^verbatim>\<open>run\<close> is
  \<^verbatim>\<open>except Exception as e\<close>, which matches the instances of \<^verbatim>\<open>Exception\<close> only: \<open>Exc\<close>
  is such an instance (\<^verbatim>\<open>OSError\<close>, \<^verbatim>\<open>socket.gaierror\<close>, \<^verbatim>\<open>ConnectionRefusedError\<close>, ...),
  \<open>BaseExc\<close> an instance of \<^verbatim>\<open>BaseException\<close> outside \<^verbatim>\<open>Exception\<close>
  (\<^verbatim>\<open>KeyboardInterrupt\<close>, \<^verbatim>\<open>SystemExit\<close>, \<^verbatim>\<open>GeneratorExit\<close>).
\<close>

datatype exn = Exc string | BaseExc string

fun isinstance_Exception :: "exn \<Rightarrow> bool" where
  "isinstance_Exception (Exc cls) = True"
| "isinstance_Exception (BaseExc cls) = False"

text \<open>The object \<^verbatim>\<open>logging.getLogger(name)\<close> returns, identified by its name.\<close>

datatype pylogger = Logger string

record SSHRV =
  logger :: pylogger
  host :: string
  destination :: pyval
  local_ssh_port :: int
  streaming_port :: pyval

text \<open>\<^verbatim>\<open>SSHRV.__init__(self, destination, port, local_port)\<close>, lines 9 to 14.\<close>

definition SSHRV_init :: "pyval \<Rightarrow> pyval \<Rightarrow> pyval \<Rightarrow> SSHRV" where
  "SSHRV_init destination_arg port local_port =
     \<lparr>logger = Logger ''sshrv'',
      host = '''',
      destination = destination_arg,
      local_ssh_port = 22,
      streaming_port = port\<rparr>"

section \<open>The collaborators of run\<close>

text \<open>
  \<^verbatim>\<open>run\<close> calls \<^verbatim>\<open>socket.gethostname\<close>, \<^verbatim>\<open>socket.gethostbyname\<close>, the constructor of
  \<^verbatim>\<open>SocketConnector\<close>, its method \<^verbatim>\<open>connect\<close> and, in the handler, \<^verbatim>\<open>logging.error\<close>. The
  operating system, the module \<^verbatim>\<open>socket_connector\<close> and the logging configuration of the
  process are parameters of the model: each call either returns a value (\<open>Inr\<close>) or
  raises (\<open>Inl\<close>). The connector object is of an arbitrary type \<open>'c\<close>.

  \<open>logging_error env msg args\<close> is the call \<^verbatim>\<open>logging.error(msg, *args)\<close> on the root
  logger. The filters of the root logger and of its handlers run outside any \<^verbatim>\<open>try\<close> of
  the library, so what they raise comes out of the call; under the default configuration
  the call returns.
\<close>

record 'c env =
  gethostname :: "exn + string"
  gethostbyname :: "string \<Rightarrow> exn + string"
  SocketConnector :: "string \<Rightarrow> int \<Rightarrow> pyval \<Rightarrow> pyval \<Rightarrow> exn + 'c"
  connect :: "'c \<Rightarrow> exn + pyval"
  logging_error :: "string \<Rightarrow> exn list \<Rightarrow> exn + unit"

text \<open>
  The calls one invocation of \<^verbatim>\<open>run\<close> makes, in order. \<open>LoggingError msg args\<close> records
  that \<^verbatim>\<open>logging.error(msg, *args)\<close> was called, whatever the call then does.
\<close>

datatype 'c event =
    GetHostName
  | GetHostByName string
  | NewSocketConnector string int pyval pyval
  | Connect 'c
  | LoggingError string "exn list"

fun is_GetHostName :: "'c event \<Rightarrow> bool" where
  "is_GetHostName GetHostName = True"
| "is_GetHostName ev = False"

fun is_GetHostByName :: "'c event \<Rightarrow> bool" where
  "is_GetHostByName (GetHostByName name) = True"
| "is_GetHostByName ev = False"

fun is_NewSocketConnector :: "'c event \<Rightarrow> bool" where
  "is_NewSocketConnector (NewSocketConnector h p d sp) = True"
| "is_NewSocketConnector ev = False"

fun is_Connect :: "'c event \<Rightarrow> bool" where
  "is_Connect (Connect c) = True"
| "is_Connect ev = False"

fun is_LoggingError :: "'c event \<Rightarrow> bool" where
  "is_LoggingError (LoggingError msg args) = True"
| "is_LoggingError ev = False"

definition count_calls :: "('c event \<Rightarrow> bool) \<Rightarrow> 'c event list \<Rightarrow> nat" where
  "count_calls P evs = length (filter P evs)"

section \<open>run\<close>

text \<open>
  What an invocation leaves behind: what the caller receives (\<open>Inr v\<close> when \<^verbatim>\<open>run\<close>
  returns \<open>v\<close>, \<open>Inl e\<close> when \<open>e\<close> propagates out of it), the object's attributes, and the
  calls made.
\<close>

record 'c exec =
  returned :: "exn + pyval"
  self :: SSHRV
  calls :: "'c event list"

text \<open>
  The body of the \<^verbatim>\<open>try\<close> statement, lines 19 to 22. The argument of
  \<^verbatim>\<open>gethostbyname\<close> is evaluated first; the assignment to \<^verbatim>\<open>self.host\<close> happens only when
  \<^verbatim>\<open>gethostbyname\<close> returns; the constructor reads its four arguments from the object
  after that assignment; the value \<^verbatim>\<open>connect\<close> returns is dropped.
\<close>

definition try_body :: "'c env \<Rightarrow> SSHRV \<Rightarrow> 'c exec" where
  "try_body env s =
     (case gethostname env of
        Inl e \<Rightarrow> \<lparr>returned = Inl e, self = s, calls = [GetHostName]\<rparr>
      | Inr name \<Rightarrow>
          (case gethostbyname env name of
             Inl e \<Rightarrow> \<lparr>returned = Inl e, self = s, calls = [GetHostName, GetHostByName name]\<rparr>
           | Inr h \<Rightarrow>
               (let s1 = s\<lparr>host := h\<rparr>;
                    new = NewSocketConnector (host s1) (local_ssh_port s1)
                            (destination s1) (streaming_port s1)
                in case SocketConnector env (host s1) (local_ssh_port s1)
                          (destination s1) (streaming_port s1) of
                     Inl e \<Rightarrow>
                       \<lparr>returned = Inl e, self = s1,
                        calls = [GetHostName, GetHostByName name, new]\<rparr>
                   | Inr socket_connector \<Rightarrow>
                       (case connect env socket_connector of
                          Inl e \<Rightarrow>
                            \<lparr>returned = Inl e, self = s1,
                             calls = [GetHostName, GetHostByName name, new,
                                      Connect socket_connector]\<rparr>
                        | Inr _ \<Rightarrow>
                            \<lparr>returned = Inr (PBool True), self = s1,
                             calls = [GetHostName, GetHostByName name, new,
                                      Connect socket_connector]\<rparr>))))"

text \<open>
  \<^verbatim>\<open>SSHRV.run(self)\<close>, lines 17 to 25: the \<^verbatim>\<open>try\<close> body under the handler
  \<^verbatim>\<open>except Exception as e: logging.error("SSHRV Error: ", e)\<close>. An exception the handler
  does not match propagates. The call in the handler is not itself inside a \<^verbatim>\<open>try\<close>: an
  exception it raises leaves \<^verbatim>\<open>run\<close> in the place of \<open>e\<close>. The handler has no
  \<^verbatim>\<open>return\<close>, so when the call returns the method falls off its end and returns \<^verbatim>\<open>None\<close>.
\<close>

definition run :: "'c env \<Rightarrow> SSHRV \<Rightarrow> 'c exec" where
  "run env s =
     (let r = try_body env s
      in case returned r of
           Inr v \<Rightarrow> r
         | Inl e \<Rightarrow>
             (if isinstance_Exception e
              then (case logging_error env ''SSHRV Error: '' [e] of
                      Inl e' \<Rightarrow>
                        r\<lparr>returned := Inl e',
                          calls := calls r @ [LoggingError ''SSHRV Error: '' [e]]\<rparr>
                    | Inr _ \<Rightarrow>
                        r\<lparr>returned := Inr PNone,
                          calls := calls r @ [LoggingError ''SSHRV Error: '' [e]]\<rparr>)
              else r))"

section \<open>Concrete sessions and environments\<close>

text \<open>A connector that remembers the arguments it was constructed with.\<close>

datatype stub_connector = StubConnector string int pyval pyval

definition session0 :: SSHRV where
  "session0 = SSHRV_init (PStr ''relay.example.org'') (PInt 9999) (PInt 2222)"

text \<open>Every call returns; \<^verbatim>\<open>connect\<close> returns \<^verbatim>\<open>None\<close>; the logging call returns.\<close>

definition env_ok :: "stub_connector env" where
  "env_ok =
     \<lparr>gethostname = Inr ''tunnelbox'',
      gethostbyname = (\<lambda>name. Inr ''192.168.1.10''),
      SocketConnector = (\<lambda>h p d sp. Inr (StubConnector h p d sp)),
      connect = (\<lambda>c. Inr PNone),
      logging_error = (\<lambda>msg args. Inr ())\<rparr>"

text \<open>\<^verbatim>\<open>connect\<close> reports its failure by returning \<^verbatim>\<open>False\<close>.\<close>

definition env_connect_False :: "stub_connector env" where
  "env_connect_False = env_ok\<lparr>connect := (\<lambda>c. Inr (PBool False))\<rparr>"

text \<open>The remote endpoint refuses the connection.\<close>

definition env_refused :: "stub_connector env" where
  "env_refused = env_ok\<lparr>connect := (\<lambda>c. Inl (Exc ''ConnectionRefusedError''))\<rparr>"

text \<open>The constructor of the connector raises.\<close>

definition env_bad_connector :: "stub_connector env" where
  "env_bad_connector = env_ok\<lparr>SocketConnector := (\<lambda>h p d sp. Inl (Exc ''TypeError''))\<rparr>"

text \<open>The host name does not resolve.\<close>

definition env_unresolvable :: "stub_connector env" where
  "env_unresolvable = env_ok\<lparr>gethostbyname := (\<lambda>name. Inl (Exc ''gaierror''))\<rparr>"

text \<open>The host name cannot be read.\<close>

definition env_no_hostname :: "stub_connector env" where
  "env_no_hostname = env_ok\<lparr>gethostname := Inl (Exc ''OSError'')\<rparr>"

text \<open>The user interrupts the process while the relay is running.\<close>

definition env_interrupted :: "stub_connector env" where
  "env_interrupted = env_ok\<lparr>connect := (\<lambda>c. Inl (BaseExc ''KeyboardInterrupt''))\<rparr>"

text \<open>The user interrupts the process during the name lookup.\<close>

definition env_lookup_interrupted :: "stub_connector env" where
  "env_lookup_interrupted =
     env_ok\<lparr>gethostbyname := (\<lambda>name. Inl (BaseExc ''KeyboardInterrupt''))\<rparr>"

text \<open>The connector ends the process from its \<^verbatim>\<open>connect\<close>.\<close>

definition env_exit :: "stub_connector env" where
  "env_exit = env_ok\<lparr>connect := (\<lambda>c. Inl (BaseExc ''SystemExit''))\<rparr>"

text \<open>
  The remote endpoint refuses the connection, and a filter on the root logger reads the
  message of each record: the message \<^verbatim>\<open>"SSHRV Error: "\<close> has no place for its argument,
  so formatting it raises \<^verbatim>\<open>TypeError\<close> inside the logging call.
\<close>

definition env_message_filter :: "stub_connector env" where
  "env_message_filter = env_refused\<lparr>logging_error := (\<lambda>msg args. Inl (Exc ''TypeError''))\<rparr>"

section \<open>The try body and the handler\<close>

text \<open>
  What the \<^verbatim>\<open>try\<close> body raises and returns, in terms of what the four calls do, and what
  the handler adds to it.
\<close>

lemma try_body_raises_iff:
  "returned (try_body env s) = Inl e \<longleftrightarrow>
     (gethostname env = Inl e
      \<or> (\<exists>name. gethostname env = Inr name \<and> gethostbyname env name = Inl e)
      \<or> (\<exists>name h. gethostname env = Inr name \<and> gethostbyname env name = Inr h
            \<and> SocketConnector env h (local_ssh_port s) (destination s) (streaming_port s) = Inl e)
      \<or> (\<exists>name h c. gethostname env = Inr name \<and> gethostbyname env name = Inr h
            \<and> SocketConnector env h (local_ssh_port s) (destination s) (streaming_port s) = Inr c
            \<and> connect env c = Inl e))"
  by (auto simp: try_body_def Let_def split: sum.splits)

lemma try_body_returns_iff:
  "returned (try_body env s) = Inr v \<longleftrightarrow>
     v = PBool True \<and>
     (\<exists>name h c w. gethostname env = Inr name \<and> gethostbyname env name = Inr h
            \<and> SocketConnector env h (local_ssh_port s) (destination s) (streaming_port s) = Inr c
            \<and> connect env c = Inr w)"
  by (auto simp: try_body_def Let_def split: sum.splits)

lemma try_body_no_LoggingError:
  "count_calls is_LoggingError (calls (try_body env s)) = 0"
  by (simp add: try_body_def count_calls_def Let_def split: sum.splits)

lemma returned_run:
  "returned (run env s) =
     (case returned (try_body env s) of
        Inr v \<Rightarrow> Inr v
      | Inl e \<Rightarrow>
          (if isinstance_Exception e
           then (case logging_error env ''SSHRV Error: '' [e] of
                   Inl e' \<Rightarrow> Inl e'
                 | Inr u \<Rightarrow> Inr PNone)
           else Inl e))"
  by (simp add: run_def Let_def split: sum.splits)

lemma self_run: "self (run env s) = self (try_body env s)"
  by (simp add: run_def Let_def split: sum.splits)

lemma calls_run:
  "calls (run env s) =
     calls (try_body env s) @
     (case returned (try_body env s) of
        Inr v \<Rightarrow> []
      | Inl e \<Rightarrow> (if isinstance_Exception e then [LoggingError ''SSHRV Error: '' [e]] else []))"
  by (simp add: run_def Let_def split: sum.splits)

lemma count_calls_run:
  assumes "\<And>msg args. \<not> P (LoggingError msg args)"
  shows "count_calls P (calls (run env s)) = count_calls P (calls (try_body env s))"
  using assms by (simp add: calls_run count_calls_def split: sum.splits)

lemma count_GetHostName_try_body:
  "count_calls is_GetHostName (calls (try_body env s)) = 1"
  by (simp add: try_body_def Let_def count_calls_def split: sum.splits)

lemma count_GetHostByName_try_body:
  "count_calls is_GetHostByName (calls (try_body env s)) =
     (case gethostname env of Inl e \<Rightarrow> 0 | Inr name \<Rightarrow> 1)"
  by (simp add: try_body_def Let_def count_calls_def split: sum.splits)

lemma count_NewSocketConnector_try_body:
  "count_calls is_NewSocketConnector (calls (try_body env s)) =
     (case gethostname env of Inl e \<Rightarrow> 0
      | Inr name \<Rightarrow> (case gethostbyname env name of Inl e \<Rightarrow> 0 | Inr h \<Rightarrow> 1))"
  by (simp add: try_body_def Let_def count_calls_def split: sum.splits)

lemma count_Connect_try_body:
  "count_calls is_Connect (calls (try_body env s)) =
     (case gethostname env of Inl e \<Rightarrow> 0
      | Inr name \<Rightarrow> (case gethostbyname env name of Inl e \<Rightarrow> 0
          | Inr h \<Rightarrow> (case SocketConnector env h (local_ssh_port s) (destination s)
                            (streaming_port s) of Inl e \<Rightarrow> 0 | Inr c \<Rightarrow> 1)))"
  by (simp add: try_body_def Let_def count_calls_def split: sum.splits)

lemma take_calls_run:
  "n \<le> length (calls (try_body env s)) \<Longrightarrow>
     take n (calls (run env s)) = take n (calls (try_body env s))"
  by (simp add: calls_run)

lemma try_body_resolved:
  assumes "gethostname env = Inr name" and "gethostbyname env name = Inr h"
  shows "take 3 (calls (try_body env s)) =
           [GetHostName, GetHostByName name,
            NewSocketConnector h (local_ssh_port s) (destination s) (streaming_port s)]"
    and "3 \<le> length (calls (try_body env s))"
  using assms by (simp_all add: try_body_def Let_def split: sum.splits)

lemma try_body_constructed:
  assumes "gethostname env = Inr name" and "gethostbyname env name = Inr h"
    and "SocketConnector env h (local_ssh_port s) (destination s) (streaming_port s) = Inr c"
  shows "calls (try_body env s) =
           [GetHostName, GetHostByName name,
            NewSocketConnector h (local_ssh_port s) (destination s) (streaming_port s),
            Connect c]"
  using assms by (simp add: try_body_def Let_def split: sum.splits)

text \<open>
  Without the handler's log call, the calls of an invocation are an initial segment of
  the sequence \<^verbatim>\<open>gethostname\<close>, \<^verbatim>\<open>gethostbyname\<close>, constructor, \<^verbatim>\<open>connect\<close>.
\<close>

lemma run_calls_shape:
  "\<exists>n name h c. filter (\<lambda>ev. \<not> is_LoggingError ev) (calls (run env s))
      = take n [GetHostName, GetHostByName name,
                NewSocketConnector h (local_ssh_port s) (destination s) (streaming_port s),
                Connect c]"
proof (cases "gethostname env")
  case (Inl e)
  then have "filter (\<lambda>ev. \<not> is_LoggingError ev) (calls (run env s))
      = take 1 [GetHostName, GetHostByName undefined,
                NewSocketConnector undefined (local_ssh_port s) (destination s) (streaming_port s),
                Connect undefined]"
    by (cases e) (simp_all add: calls_run try_body_def)
  then show ?thesis by blast
next
  case name: (Inr name)
  show ?thesis
  proof (cases "gethostbyname env name")
    case (Inl e)
    with name have "filter (\<lambda>ev. \<not> is_LoggingError ev) (calls (run env s))
        = take 2 [GetHostName, GetHostByName name,
                NewSocketConnector undefined (local_ssh_port s) (destination s) (streaming_port s),
                Connect undefined]"
      by (cases e) (simp_all add: calls_run try_body_def)
    then show ?thesis by blast
  next
    case h: (Inr h)
    show ?thesis
    proof (cases "SocketConnector env h (local_ssh_port s) (destination s) (streaming_port s)")
      case (Inl e)
      with name h have "filter (\<lambda>ev. \<not> is_LoggingError ev) (calls (run env s))
          = take 3 [GetHostName, GetHostByName name,
                NewSocketConnector h (local_ssh_port s) (destination s) (streaming_port s),
                Connect undefined]"
        by (cases e) (simp_all add: calls_run try_body_def)
      then show ?thesis by blast
    next
      case c: (Inr c)
      have "filter (\<lambda>ev. \<not> is_LoggingError ev) (calls (run env s))
          = take 4 [GetHostName, GetHostByName name,
                NewSocketConnector h (local_ssh_port s) (destination s) (streaming_port s),
                Connect c]"
      proof (cases "connect env c")
        case (Inl e)
        with name h c show ?thesis
          by (cases e) (simp_all add: calls_run try_body_def)
      next
        case (Inr v)
        with name h c show ?thesis
          by (simp add: calls_run try_body_def)
      qed
      then show ?thesis by blast
    qed
  qed
qed

text \<open>
  The call in the handler is not protected. With the filter that reads the message, the
  refused connection is caught, the logging call raises \<^verbatim>\<open>TypeError\<close>, and that exception
  leaves \<^verbatim>\<open>run\<close>.
\<close>

lemma run_logging_call_raises:
  "returned (try_body env_message_filter session0) = Inl (Exc ''ConnectionRefusedError'')
   \<and> returned (run env_message_filter session0) = Inl (Exc ''TypeError'')"
  by (simp add: returned_run try_body_def env_message_filter_def env_refused_def env_ok_def)

section \<open>The constructor\<close>

text \<open>
  Claim C1. For every choice of the constructor arguments the local SSH port of the new
  object is 22, and two constructions that differ only in \<^verbatim>\<open>local_port\<close> give the same
  object: the argument reaches no attribute.
\<close>

theorem SSHRV_init_local_ssh_port:
  "local_ssh_port (SSHRV_init destination_arg port local_port) = 22
   \<and> SSHRV_init destination_arg port local_port = SSHRV_init destination_arg port local_port'"
  by (simp add: SSHRV_init_def)

text \<open>
  Claim C1 at a concrete construction: \<^verbatim>\<open>local_port\<close> 2222 and 22 give the same object.
\<close>

theorem SSHRV_init_local_ssh_port_witness:
  "local_ssh_port (SSHRV_init (PStr ''relay.example.org'') (PInt 9999) (PInt 2222)) = 22
   \<and> SSHRV_init (PStr ''relay.example.org'') (PInt 9999) (PInt 2222)
      = SSHRV_init (PStr ''relay.example.org'') (PInt 9999) (PInt 22)"
  by (rule SSHRV_init_local_ssh_port)

section \<open>Exceptions inside run\<close>

text \<open>
  Claim C2 says that no exception raised during address resolution, connector
  construction or \<^verbatim>\<open>connect\<close> reaches the caller, so that \<^verbatim>\<open>run\<close> always returns. The
  handler is \<^verbatim>\<open>except Exception\<close>: a \<^verbatim>\<open>KeyboardInterrupt\<close> raised while \<^verbatim>\<open>connect\<close> runs is
  not matched, is not logged, and propagates out of \<^verbatim>\<open>run\<close>.
\<close>

theorem run_propagates_KeyboardInterrupt:
  "connect env_interrupted (StubConnector ''192.168.1.10'' 22 (PStr ''relay.example.org'') (PInt 9999))
       = Inl (BaseExc ''KeyboardInterrupt'')
   \<and> returned (run env_interrupted session0) = Inl (BaseExc ''KeyboardInterrupt'')
   \<and> count_calls is_LoggingError (calls (run env_interrupted session0)) = 0"
  by (simp add: run_def try_body_def env_interrupted_def env_ok_def session0_def SSHRV_init_def
      count_calls_def)

text \<open>
  Claim C2, amended. Every exception that is an instance of \<^verbatim>\<open>Exception\<close> and is raised by
  \<^verbatim>\<open>gethostname\<close>, by \<^verbatim>\<open>gethostbyname\<close>, by the constructor of the connector or by
  \<^verbatim>\<open>connect\<close> is caught by \<^verbatim>\<open>run\<close> and not raised again: when the call
  \<^verbatim>\<open>logging.error("SSHRV Error: ", e)\<close> of the handler returns, \<^verbatim>\<open>run\<close> returns normally, with
  \<^verbatim>\<open>None\<close>.
\<close>

theorem run_catches_Exception:
  assumes "isinstance_Exception e"
    and "gethostname env = Inl e
      \<or> (\<exists>name. gethostname env = Inr name \<and> gethostbyname env name = Inl e)
      \<or> (\<exists>name h. gethostname env = Inr name \<and> gethostbyname env name = Inr h
            \<and> SocketConnector env h (local_ssh_port s) (destination s) (streaming_port s) = Inl e)
      \<or> (\<exists>name h c. gethostname env = Inr name \<and> gethostbyname env name = Inr h
            \<and> SocketConnector env h (local_ssh_port s) (destination s) (streaming_port s) = Inr c
            \<and> connect env c = Inl e)"
    and "logging_error env ''SSHRV Error: '' [e] = Inr ()"
  shows "returned (run env s) = Inr PNone"
proof -
  from assms(2) have raised: "returned (try_body env s) = Inl e"
    by (simp only: try_body_raises_iff)
  with assms(1) assms(3) show ?thesis
    by (simp add: returned_run)
qed

text \<open>
  Claim C2, amended, at a refused connection: \<^verbatim>\<open>ConnectionRefusedError\<close> from \<^verbatim>\<open>connect\<close> is
  caught, the logging call returns, and \<^verbatim>\<open>run\<close> returns \<^verbatim>\<open>None\<close>.
\<close>

theorem run_catches_Exception_witness:
  "isinstance_Exception (Exc ''ConnectionRefusedError'')
   \<and> connect env_refused (StubConnector ''192.168.1.10'' 22 (PStr ''relay.example.org'') (PInt 9999))
       = Inl (Exc ''ConnectionRefusedError'')
   \<and> logging_error env_refused ''SSHRV Error: '' [Exc ''ConnectionRefusedError''] = Inr ()
   \<and> returned (run env_refused session0) = Inr PNone"
proof -
  have inst: "isinstance_Exception (Exc ''ConnectionRefusedError'')"
    by simp
  have refused: "connect env_refused
      (StubConnector ''192.168.1.10'' 22 (PStr ''relay.example.org'') (PInt 9999))
       = Inl (Exc ''ConnectionRefusedError'')"
    by (simp add: env_refused_def)
  have logged: "logging_error env_refused ''SSHRV Error: '' [Exc ''ConnectionRefusedError'']
       = Inr ()"
    by (simp add: env_refused_def env_ok_def)
  have raised: "gethostname env_refused = Inl (Exc ''ConnectionRefusedError'')
      \<or> (\<exists>name. gethostname env_refused = Inr name
            \<and> gethostbyname env_refused name = Inl (Exc ''ConnectionRefusedError''))
      \<or> (\<exists>name h. gethostname env_refused = Inr name \<and> gethostbyname env_refused name = Inr h
            \<and> SocketConnector env_refused h (local_ssh_port session0) (destination session0)
                  (streaming_port session0) = Inl (Exc ''ConnectionRefusedError''))
      \<or> (\<exists>name h c. gethostname env_refused = Inr name \<and> gethostbyname env_refused name = Inr h
            \<and> SocketConnector env_refused h (local_ssh_port session0) (destination session0)
                  (streaming_port session0) = Inr c
            \<and> connect env_refused c = Inl (Exc ''ConnectionRefusedError''))"
    by (simp add: env_refused_def env_ok_def session0_def SSHRV_init_def)
  from run_catches_Exception [OF inst raised logged] inst refused logged show ?thesis
    by blast
qed

section \<open>The value run returns\<close>

text \<open>
  Claim C3 says that on an internal exception \<^verbatim>\<open>run\<close> returns, without a success
  indicator. When \<^verbatim>\<open>connect\<close> raises \<^verbatim>\<open>SystemExit\<close>, \<^verbatim>\<open>run\<close> does not return: the exception
  reaches the caller.
\<close>

theorem run_propagates_SystemExit:
  "connect env_exit (StubConnector ''192.168.1.10'' 22 (PStr ''relay.example.org'') (PInt 9999))
       = Inl (BaseExc ''SystemExit'')
   \<and> returned (run env_exit session0) = Inl (BaseExc ''SystemExit'')"
  by (simp add: run_def try_body_def env_exit_def env_ok_def session0_def SSHRV_init_def)

text \<open>
  Claim C3, amended. \<^verbatim>\<open>run\<close> returns \<^verbatim>\<open>True\<close> exactly when resolution, the construction of
  the connector and \<^verbatim>\<open>connect\<close> all return. It returns \<^verbatim>\<open>None\<close>, which is no success
  indicator and no failure value, exactly when the \<^verbatim>\<open>try\<close> body raises an instance of
  \<^verbatim>\<open>Exception\<close> and the logging call of the handler returns. \<^verbatim>\<open>run\<close> returns no other
  value: in every remaining case an exception leaves it.
\<close>

theorem run_returns_True_iff:
  "(returned (run env s) = Inr (PBool True) \<longleftrightarrow>
      (\<exists>name h c v. gethostname env = Inr name \<and> gethostbyname env name = Inr h
         \<and> SocketConnector env h (local_ssh_port s) (destination s) (streaming_port s) = Inr c
         \<and> connect env c = Inr v))
   \<and> (returned (run env s) = Inr PNone \<longleftrightarrow>
        (\<exists>cls. returned (try_body env s) = Inl (Exc cls)
           \<and> logging_error env ''SSHRV Error: '' [Exc cls] = Inr ()))
   \<and> (returned (run env s) = Inr (PBool True) \<or> returned (run env s) = Inr PNone
        \<or> (\<exists>e. returned (run env s) = Inl e))"
proof (cases "returned (try_body env s)")
  case (Inr v)
  then have "returned (run env s) = Inr v"
    by (simp add: returned_run)
  with Inr show ?thesis
    using try_body_returns_iff [of env s v] try_body_returns_iff [of env s "PBool True"]
    by auto
next
  case (Inl e)
  have no: "\<not> (\<exists>name h c v. gethostname env = Inr name \<and> gethostbyname env name = Inr h
         \<and> SocketConnector env h (local_ssh_port s) (destination s) (streaming_port s) = Inr c
         \<and> connect env c = Inr v)"
    using Inl try_body_returns_iff [of env s "PBool True"] by auto
  show ?thesis
  proof (cases e)
    case (Exc cls)
    show ?thesis
    proof (cases "logging_error env ''SSHRV Error: '' [Exc cls]")
      case log: (Inl e')
      with Inl Exc have "returned (run env s) = Inl e'"
        by (simp add: returned_run)
      with Inl Exc log no show ?thesis by auto
    next
      case log: (Inr u)
      with Inl Exc have "returned (run env s) = Inr PNone"
        by (simp add: returned_run)
      with Inl Exc log no show ?thesis by auto
    qed
  next
    case (BaseExc cls)
    with Inl have "returned (run env s) = Inl (BaseExc cls)"
      by (simp add: returned_run)
    with Inl BaseExc no show ?thesis by auto
  qed
qed

text \<open>
  Claim C3, amended, at two runs: every call returns and \<^verbatim>\<open>run\<close> returns \<^verbatim>\<open>True\<close>; the
  connection is refused, the logging call returns and \<^verbatim>\<open>run\<close> returns \<^verbatim>\<open>None\<close>.
\<close>

theorem run_returns_True_iff_witness:
  "returned (run env_ok session0) = Inr (PBool True)
   \<and> returned (run env_refused session0) = Inr PNone"
proof -
  have "\<exists>name h c v. gethostname env_ok = Inr name \<and> gethostbyname env_ok name = Inr h
         \<and> SocketConnector env_ok h (local_ssh_port session0) (destination session0)
              (streaming_port session0) = Inr c
         \<and> connect env_ok c = Inr v"
    by (simp add: env_ok_def)
  moreover have "\<exists>cls. returned (try_body env_refused session0) = Inl (Exc cls)
         \<and> logging_error env_refused ''SSHRV Error: '' [Exc cls] = Inr ()"
    by (simp add: try_body_def env_refused_def env_ok_def)
  ultimately show ?thesis
    using run_returns_True_iff [of env_ok session0] run_returns_True_iff [of env_refused session0]
    by blast
qed

text \<open>
  Claim C8 says that whenever any exception occurs during \<^verbatim>\<open>run\<close>, \<^verbatim>\<open>run\<close> returns
  \<^verbatim>\<open>None\<close>. When the name lookup is interrupted (\<^verbatim>\<open>KeyboardInterrupt\<close> from
  \<^verbatim>\<open>gethostbyname\<close>), \<^verbatim>\<open>run\<close> returns nothing: the exception propagates.
\<close>

theorem run_lookup_interrupted_no_return:
  "gethostbyname env_lookup_interrupted ''tunnelbox'' = Inl (BaseExc ''KeyboardInterrupt'')
   \<and> returned (run env_lookup_interrupted session0) = Inl (BaseExc ''KeyboardInterrupt'')
   \<and> returned (run env_lookup_interrupted session0) \<noteq> Inr PNone"
  by (simp add: run_def try_body_def env_lookup_interrupted_def env_ok_def)

text \<open>
  Claim C8, amended. When an instance of \<^verbatim>\<open>Exception\<close> is raised in the \<^verbatim>\<open>try\<close> body and
  the logging call of the handler returns, \<^verbatim>\<open>run\<close> returns \<^verbatim>\<open>None\<close>. \<^verbatim>\<open>run\<close> never returns
  \<^verbatim>\<open>False\<close>: whenever it returns, the value is \<^verbatim>\<open>True\<close> or \<^verbatim>\<open>None\<close>, so a caller that
  compares the result with \<^verbatim>\<open>False\<close> never sees a failure.
\<close>

theorem run_returns_None_not_False:
  "(isinstance_Exception e \<and> returned (try_body env s) = Inl e
      \<and> logging_error env ''SSHRV Error: '' [e] = Inr () \<longrightarrow>
      returned (run env s) = Inr PNone)
   \<and> returned (run env s) \<noteq> Inr (PBool False)
   \<and> (\<forall>v. returned (run env s) = Inr v \<longrightarrow> v = PBool True \<or> v = PNone)"
proof -
  have a: "returned (run env s) = Inr PNone"
    if "isinstance_Exception e" "returned (try_body env s) = Inl e"
      "logging_error env ''SSHRV Error: '' [e] = Inr ()"
    using that by (simp add: returned_run)
  have b: "v = PBool True \<or> v = PNone" if "returned (run env s) = Inr v" for v
    using that try_body_returns_iff [of env s v]
    by (auto simp: returned_run split: sum.splits if_splits)
  from b have c: "returned (run env s) \<noteq> Inr (PBool False)"
    by (metis pyval.distinct(1) pyval.inject(1))
  from a b c show ?thesis
    by blast
qed

text \<open>
  Claim C8, amended, at a constructor that raises \<^verbatim>\<open>TypeError\<close>: the logging call returns
  and \<^verbatim>\<open>run\<close> returns \<^verbatim>\<open>None\<close>.
\<close>

theorem run_returns_None_not_False_witness:
  "isinstance_Exception (Exc ''TypeError'')
   \<and> returned (try_body env_bad_connector session0) = Inl (Exc ''TypeError'')
   \<and> logging_error env_bad_connector ''SSHRV Error: '' [Exc ''TypeError''] = Inr ()
   \<and> returned (run env_bad_connector session0) = Inr PNone"
proof -
  have inst: "isinstance_Exception (Exc ''TypeError'')"
    by simp
  have raised: "returned (try_body env_bad_connector session0) = Inl (Exc ''TypeError'')"
    by (simp add: try_body_def env_bad_connector_def env_ok_def)
  have logged: "logging_error env_bad_connector ''SSHRV Error: '' [Exc ''TypeError''] = Inr ()"
    by (simp add: env_bad_connector_def env_ok_def)
  from inst raised logged
    run_returns_None_not_False [of "Exc ''TypeError''" env_bad_connector session0]
  show ?thesis by blast
qed

text \<open>
  Claim C10. When resolution and construction return and \<^verbatim>\<open>connect\<close> returns any value
  \<open>v\<close>, \<^verbatim>\<open>run\<close> returns \<^verbatim>\<open>True\<close>: the value of \<^verbatim>\<open>connect\<close> is dropped, so a failure that
  \<^verbatim>\<open>connect\<close> signals by its return value reaches the caller of \<^verbatim>\<open>run\<close> as success.
\<close>

theorem run_ignores_connect_result:
  assumes "gethostname env = Inr name"
    and "gethostbyname env name = Inr h"
    and "SocketConnector env h (local_ssh_port s) (destination s) (streaming_port s) = Inr c"
    and "connect env c = Inr v"
  shows "returned (run env s) = Inr (PBool True)"
  using assms by (simp add: returned_run try_body_def)

text \<open>
  Claim C10 at a \<^verbatim>\<open>connect\<close> that returns \<^verbatim>\<open>False\<close>: \<^verbatim>\<open>run\<close> returns \<^verbatim>\<open>True\<close>.
\<close>

theorem run_ignores_connect_result_witness:
  "connect env_connect_False
      (StubConnector ''192.168.1.10'' 22 (PStr ''relay.example.org'') (PInt 9999))
     = Inr (PBool False)
   \<and> returned (run env_connect_False session0) = Inr (PBool True)"
proof -
  have n: "gethostname env_connect_False = Inr ''tunnelbox''"
    and h: "gethostbyname env_connect_False ''tunnelbox'' = Inr ''192.168.1.10''"
    and c: "SocketConnector env_connect_False ''192.168.1.10'' (local_ssh_port session0)
              (destination session0) (streaming_port session0)
            = Inr (StubConnector ''192.168.1.10'' 22 (PStr ''relay.example.org'') (PInt 9999))"
    and v: "connect env_connect_False
              (StubConnector ''192.168.1.10'' 22 (PStr ''relay.example.org'') (PInt 9999))
            = Inr (PBool False)"
    by (simp_all add: env_connect_False_def env_ok_def session0_def SSHRV_init_def)
  from run_ignores_connect_result [OF n h c v] v show ?thesis
    by simp
qed

section \<open>The calls run makes\<close>

text \<open>
  Claim C4 says that every invocation makes exactly one connect attempt. When the host
  name does not resolve, \<^verbatim>\<open>run\<close> makes none.
\<close>

theorem run_no_connect_when_unresolvable:
  "count_calls is_Connect (calls (run env_unresolvable session0)) = 0"
  by (simp add: run_def try_body_def env_unresolvable_def env_ok_def count_calls_def)

text \<open>
  Claim C4, amended. Every invocation of \<^verbatim>\<open>run\<close> invokes \<^verbatim>\<open>connect\<close> at most once, and
  exactly once when resolution and the construction of the connector return, whatever
  \<^verbatim>\<open>connect\<close> then does: there is no retry.
\<close>

theorem run_connect_at_most_once:
  "count_calls is_Connect (calls (run env s)) \<le> 1
   \<and> (count_calls is_Connect (calls (run env s)) = 1 \<longleftrightarrow>
        (\<exists>name h c. gethostname env = Inr name \<and> gethostbyname env name = Inr h
           \<and> SocketConnector env h (local_ssh_port s) (destination s) (streaming_port s) = Inr c))"
  by (auto simp: count_calls_run count_Connect_try_body split: sum.splits)

text \<open>
  Claim C4, amended, at a refused connection: \<^verbatim>\<open>connect\<close> fails and was invoked once.
\<close>

theorem run_connect_at_most_once_witness:
  "count_calls is_Connect (calls (run env_refused session0)) = 1"
proof -
  have "\<exists>name h c. gethostname env_refused = Inr name \<and> gethostbyname env_refused name = Inr h
           \<and> SocketConnector env_refused h (local_ssh_port session0) (destination session0)
                (streaming_port session0) = Inr c"
    by (simp add: env_refused_def env_ok_def)
  then show ?thesis
    using run_connect_at_most_once [of env_refused session0] by blast
qed

text \<open>
  Claim C5 says that every invocation resolves the address and then constructs the
  connector and invokes \<^verbatim>\<open>connect\<close>. When \<^verbatim>\<open>gethostname\<close> raises, the only calls are
  \<^verbatim>\<open>gethostname\<close> and the log call: no connector is constructed and \<^verbatim>\<open>connect\<close> is not
  invoked.
\<close>

theorem run_no_connector_without_hostname:
  "gethostname env_no_hostname = Inl (Exc ''OSError'')
   \<and> calls (run env_no_hostname session0) =
       [GetHostName, LoggingError ''SSHRV Error: '' [Exc ''OSError'']]
   \<and> count_calls is_NewSocketConnector (calls (run env_no_hostname session0)) = 0
   \<and> count_calls is_Connect (calls (run env_no_hostname session0)) = 0"
  by (simp add: run_def try_body_def env_no_hostname_def env_ok_def count_calls_def)

text \<open>
  Claim C5, amended. Every invocation of \<^verbatim>\<open>run\<close> starts the resolution exactly once
  (\<^verbatim>\<open>gethostname\<close> once, \<^verbatim>\<open>gethostbyname\<close> at most once) and constructs at most one
  connector and invokes \<^verbatim>\<open>connect\<close> at most once. When the resolution returns \<open>h\<close>, the
  next call is the one construction of the connector, with exactly the four arguments
  \<open>h\<close>, the local port, the destination and the streaming port, in this order; when
  the construction returns \<open>c\<close>, the next call is the one \<^verbatim>\<open>connect\<close>, on \<open>c\<close>.
\<close>

theorem run_call_order:
  "count_calls is_GetHostName (calls (run env s)) = 1
   \<and> count_calls is_GetHostByName (calls (run env s)) \<le> 1
   \<and> count_calls is_NewSocketConnector (calls (run env s)) \<le> 1
   \<and> count_calls is_Connect (calls (run env s)) \<le> 1
   \<and> (gethostname env = Inr name \<and> gethostbyname env name = Inr h \<longrightarrow>
        count_calls is_GetHostByName (calls (run env s)) = 1
        \<and> count_calls is_NewSocketConnector (calls (run env s)) = 1
        \<and> take 3 (calls (run env s)) =
             [GetHostName, GetHostByName name,
              NewSocketConnector h (local_ssh_port s) (destination s) (streaming_port s)]
        \<and> (SocketConnector env h (local_ssh_port s) (destination s) (streaming_port s) = Inr c \<longrightarrow>
             count_calls is_Connect (calls (run env s)) = 1
             \<and> take 4 (calls (run env s)) =
                 [GetHostName, GetHostByName name,
                  NewSocketConnector h (local_ssh_port s) (destination s) (streaming_port s),
                  Connect c]))"
proof -
  have a: "count_calls is_GetHostName (calls (run env s)) = 1"
    by (simp add: count_calls_run count_GetHostName_try_body)
  have b: "count_calls is_GetHostByName (calls (run env s)) \<le> 1"
    by (simp add: count_calls_run count_GetHostByName_try_body split: sum.splits)
  have c: "count_calls is_NewSocketConnector (calls (run env s)) \<le> 1"
    by (simp add: count_calls_run count_NewSocketConnector_try_body split: sum.splits)
  have d: "count_calls is_Connect (calls (run env s)) \<le> 1"
    by (simp add: count_calls_run count_Connect_try_body split: sum.splits)
  have e: "count_calls is_GetHostByName (calls (run env s)) = 1
        \<and> count_calls is_NewSocketConnector (calls (run env s)) = 1
        \<and> take 3 (calls (run env s)) =
             [GetHostName, GetHostByName name,
              NewSocketConnector h (local_ssh_port s) (destination s) (streaming_port s)]"
    if "gethostname env = Inr name" "gethostbyname env name = Inr h"
    using that try_body_resolved [OF that, of s]
    by (simp add: count_calls_run count_GetHostByName_try_body
        count_NewSocketConnector_try_body take_calls_run)
  have f: "count_calls is_Connect (calls (run env s)) = 1
             \<and> take 4 (calls (run env s)) =
                 [GetHostName, GetHostByName name,
                  NewSocketConnector h (local_ssh_port s) (destination s) (streaming_port s),
                  Connect c]"
    if "gethostname env = Inr name" "gethostbyname env name = Inr h"
      "SocketConnector env h (local_ssh_port s) (destination s) (streaming_port s) = Inr c"
  proof
    show "count_calls is_Connect (calls (run env s)) = 1"
      using that by (simp add: count_calls_run count_Connect_try_body)
    show "take 4 (calls (run env s)) =
                 [GetHostName, GetHostByName name,
                  NewSocketConnector h (local_ssh_port s) (destination s) (streaming_port s),
                  Connect c]"
      using try_body_constructed [OF that] by (simp add: take_calls_run)
  qed
  from a b c d e f show ?thesis
    by blast
qed

text \<open>
  Claim C5, amended, at a run where every call returns: the four calls, in order.
\<close>

theorem run_call_order_witness:
  "gethostname env_ok = Inr ''tunnelbox''
   \<and> gethostbyname env_ok ''tunnelbox'' = Inr ''192.168.1.10''
   \<and> SocketConnector env_ok ''192.168.1.10'' 22 (PStr ''relay.example.org'') (PInt 9999)
       = Inr (StubConnector ''192.168.1.10'' 22 (PStr ''relay.example.org'') (PInt 9999))
   \<and> calls (run env_ok session0) =
       [GetHostName, GetHostByName ''tunnelbox'',
        NewSocketConnector ''192.168.1.10'' 22 (PStr ''relay.example.org'') (PInt 9999),
        Connect (StubConnector ''192.168.1.10'' 22 (PStr ''relay.example.org'') (PInt 9999))]"
proof -
  have n: "gethostname env_ok = Inr ''tunnelbox''"
    and h: "gethostbyname env_ok ''tunnelbox'' = Inr ''192.168.1.10''"
    and c: "SocketConnector env_ok ''192.168.1.10'' (local_ssh_port session0)
              (destination session0) (streaming_port session0)
            = Inr (StubConnector ''192.168.1.10'' 22 (PStr ''relay.example.org'') (PInt 9999))"
    and s: "local_ssh_port session0 = 22" "destination session0 = PStr ''relay.example.org''"
      "streaming_port session0 = PInt 9999"
    by (simp_all add: env_ok_def session0_def SSHRV_init_def)
  have len: "length (calls (run env_ok session0)) = 4"
    by (simp add: run_def try_body_def env_ok_def)
  from run_call_order [of env_ok session0 "''tunnelbox''" "''192.168.1.10''"
      "StubConnector ''192.168.1.10'' 22 (PStr ''relay.example.org'') (PInt 9999)"] n h c
  have "take 4 (calls (run env_ok session0)) =
       [GetHostName, GetHostByName ''tunnelbox'',
        NewSocketConnector ''192.168.1.10'' (local_ssh_port session0) (destination session0)
          (streaming_port session0),
        Connect (StubConnector ''192.168.1.10'' 22 (PStr ''relay.example.org'') (PInt 9999))]"
    by blast
  with len s n h c show ?thesis by simp
qed

text \<open>
  Claim C6. When the resolution raises (in \<^verbatim>\<open>gethostname\<close> or in \<^verbatim>\<open>gethostbyname\<close>),
  \<^verbatim>\<open>run\<close> constructs no connector and invokes no \<^verbatim>\<open>connect\<close>. In every invocation the calls
  other than the log call are an initial segment of the sequence \<^verbatim>\<open>gethostname\<close>,
  \<^verbatim>\<open>gethostbyname\<close>, constructor, \<^verbatim>\<open>connect\<close>, so the resolution precedes any connection
  attempt.
\<close>

theorem run_resolution_raises_no_connection:
  "(gethostname env = Inl e
      \<or> (\<exists>name. gethostname env = Inr name \<and> gethostbyname env name = Inl e) \<longrightarrow>
      count_calls is_NewSocketConnector (calls (run env s)) = 0
      \<and> count_calls is_Connect (calls (run env s)) = 0)
   \<and> (\<exists>n name h c. filter (\<lambda>ev. \<not> is_LoggingError ev) (calls (run env s))
         = take n [GetHostName, GetHostByName name,
                   NewSocketConnector h (local_ssh_port s) (destination s) (streaming_port s),
                   Connect c])"
proof
  show "gethostname env = Inl e
      \<or> (\<exists>name. gethostname env = Inr name \<and> gethostbyname env name = Inl e) \<longrightarrow>
      count_calls is_NewSocketConnector (calls (run env s)) = 0
      \<and> count_calls is_Connect (calls (run env s)) = 0"
    by (auto simp: count_calls_run count_NewSocketConnector_try_body count_Connect_try_body)
  show "\<exists>n name h c. filter (\<lambda>ev. \<not> is_LoggingError ev) (calls (run env s))
         = take n [GetHostName, GetHostByName name,
                   NewSocketConnector h (local_ssh_port s) (destination s) (streaming_port s),
                   Connect c]"
    by (rule run_calls_shape)
qed

text \<open>
  Claim C6 at a host name that does not resolve: no constructor call, no \<^verbatim>\<open>connect\<close>.
\<close>

theorem run_resolution_raises_no_connection_witness:
  "gethostname env_unresolvable = Inr ''tunnelbox''
   \<and> gethostbyname env_unresolvable ''tunnelbox'' = Inl (Exc ''gaierror'')
   \<and> count_calls is_NewSocketConnector (calls (run env_unresolvable session0)) = 0
   \<and> count_calls is_Connect (calls (run env_unresolvable session0)) = 0"
proof -
  have n: "gethostname env_unresolvable = Inr ''tunnelbox''"
    and h: "gethostbyname env_unresolvable ''tunnelbox'' = Inl (Exc ''gaierror'')"
    by (simp_all add: env_unresolvable_def env_ok_def)
  with run_resolution_raises_no_connection [of env_unresolvable "Exc ''gaierror''" session0]
  show ?thesis by blast
qed

section \<open>The attributes run leaves unchanged\<close>

text \<open>
  Claim C9. Whatever the calls do, \<^verbatim>\<open>run\<close> leaves \<^verbatim>\<open>logger\<close>, \<^verbatim>\<open>destination\<close>,
  \<^verbatim>\<open>local_ssh_port\<close> and \<^verbatim>\<open>streaming_port\<close> as they were: the object after \<^verbatim>\<open>run\<close> is the
  object before it with at most \<^verbatim>\<open>host\<close> replaced, on the path that returns \<^verbatim>\<open>True\<close>, on
  the path through the handler and when an exception propagates.
\<close>

theorem run_frame:
  "logger (self (run env s)) = logger s
   \<and> destination (self (run env s)) = destination s
   \<and> local_ssh_port (self (run env s)) = local_ssh_port s
   \<and> streaming_port (self (run env s)) = streaming_port s
   \<and> (\<exists>h. self (run env s) = s\<lparr>host := h\<rparr>)"
proof -
  have "self (run env s) = self (try_body env s)"
    by (rule self_run)
  moreover have "self (try_body env s) = s \<or> (\<exists>h. self (try_body env s) = s\<lparr>host := h\<rparr>)"
    by (auto simp: try_body_def Let_def split: sum.splits)
  moreover have "s = s\<lparr>host := host s\<rparr>"
    by simp
  ultimately have "\<exists>h. self (run env s) = s\<lparr>host := h\<rparr>"
    by metis
  then show ?thesis by auto
qed

text \<open>
  Claim C9 at a refused connection, the path through the handler: only \<^verbatim>\<open>host\<close> changed.
\<close>

theorem run_frame_witness:
  "self (run env_refused session0) = session0\<lparr>host := ''192.168.1.10''\<rparr>
   \<and> local_ssh_port (self (run env_refused session0)) = 22
   \<and> destination (self (run env_refused session0)) = PStr ''relay.example.org''"
proof -
  have "self (run env_refused session0) = session0\<lparr>host := ''192.168.1.10''\<rparr>"
    by (simp add: run_def try_body_def env_refused_def env_ok_def)
  moreover have "local_ssh_port session0 = 22" "destination session0 = PStr ''relay.example.org''"
    by (simp_all add: session0_def SSHRV_init_def)
  ultimately show ?thesis
    using run_frame [of env_refused session0] by simp
qed

end
